theory Spec2Isabelle
  imports Main "HOL-Library.Word"
begin

unbundle bit_operations_syntax

section \<open>The ARM7TDMI core of the Hades emulator\<close>

text \<open>
  A shallow embedding of the core source: \<^verbatim>\<open>core_reset\<close>, \<^verbatim>\<open>core_step\<close>,
  \<^verbatim>\<open>core_step_arm\<close>, \<^verbatim>\<open>core_step_thumb\<close>, \<^verbatim>\<open>core_reload_pipeline\<close> and
  \<^verbatim>\<open>core_compute_shift\<close>. The functions mutate a \<^verbatim>\<open>struct core\<close> through a
  pointer; here the core is a record that is passed in and returned. \<^verbatim>\<open>panic\<close> and
  \<^verbatim>\<open>unimplemented\<close> stop the emulator; here they are the \<open>Inl\<close> results.
\<close>

subsection \<open>Data model\<close>

type_synonym u8 = "8 word"
type_synonym u32 = "32 word"

text \<open>
  The calls of \<^verbatim>\<open>panic(CORE, ...)\<close> and \<^verbatim>\<open>unimplemented(CORE, ...)\<close> in the core source,
  one constructor per call site message:
  \<^item> \<open>Panic_unknown_cond n\<close>: \<^verbatim>\<open>panic(CORE, "Unknown cond %u\n", op >> 28)\<close>;
  \<^item> \<open>Panic_unknown_instruction\<close>: \<^verbatim>\<open>panic(CORE, "Unknown instruction")\<close>;
  \<^item> \<open>Panic_undefined_state\<close>: \<^verbatim>\<open>panic(CORE, "Undefined state")\<close>;
  \<^item> \<open>Unimplemented_thumb\<close>: \<^verbatim>\<open>unimplemented(CORE, "Thumb mode isn't implemented (yet).")\<close>;
  \<^item> \<open>Unimplemented_shift\<close>:
    \<^verbatim>\<open>unimplemented(CORE, "unsupported shifts of more than 32 bits")\<close>.
\<close>

datatype error =
    Panic_unknown_cond u32
  | Panic_unknown_instruction
  | Panic_undefined_state
  | Unimplemented_thumb
  | Unimplemented_shift

text \<open>
  Modelled from the spec: the declaration of \<^verbatim>\<open>struct core\<close> (\<^verbatim>\<open>core.h\<close>) is not among
  the sources. The status word is a union of \<^verbatim>\<open>raw\<close> and the bit-fields that
  the core source reads and writes (\<^verbatim>\<open>mode\<close>, \<^verbatim>\<open>thumb\<close>, \<^verbatim>\<open>overflow\<close>, \<^verbatim>\<open>carry\<close>, \<^verbatim>\<open>zero\<close>,
  \<^verbatim>\<open>negative\<close>) together with the interrupt-disable pair of the data model: four
  condition flags (N, Z, C, V), an interrupt-disable pair (I, F), a T-bit and a 5-bit
  mode field. The record keeps one field per bit-field.
\<close>

record psr =
  mode :: "5 word"
  thumb :: bool
  fiq_disable :: bool
  irq_disable :: bool
  overflow :: bool
  carry :: bool
  zero :: bool
  negative :: bool

text \<open>\<^verbatim>\<open>cpsr.raw = 0\<close>: every bit-field of the union is cleared.\<close>

definition psr_raw_zero :: psr where
  "psr_raw_zero =
     \<lparr>mode = 0, thumb = False, fiq_disable = False, irq_disable = False,
      overflow = False, carry = False, zero = False, negative = False\<rparr>"

text \<open>
  Modelled from the spec: \<^verbatim>\<open>MODE_SYSTEM\<close> (\<^verbatim>\<open>core.h\<close>) is not among the sources; System
  is mode \<open>0b11111\<close> of the ARM7TDMI data sheet that the core source refers to.
\<close>

definition MODE_SYSTEM :: "5 word" where
  "MODE_SYSTEM = 0b11111"

text \<open>
  Modelled from the spec: \<^verbatim>\<open>struct core\<close>. Sixteen general registers visible as
  r0--r15, r15 being the program counter: \<^verbatim>\<open>core->r15\<close> is \<^verbatim>\<open>core->registers[15]\<close>.
  Every index the core source uses is below 16 (the loop of \<^verbatim>\<open>core_reset\<close>, and
  \<^verbatim>\<open>(encoded_shift >> 4) & 0xF\<close>).
\<close>

record core =
  registers :: "nat \<Rightarrow> u32"
  cpsr :: psr
  prefetch :: u32
  big_endian :: bool
  memory :: "u8 list"
  memory_size :: nat

definition r15 :: "core \<Rightarrow> u32" where
  "r15 c = registers c 15"

definition set_r15 :: "u32 \<Rightarrow> core \<Rightarrow> core" where
  "set_r15 v c = c\<lparr>registers := (registers c)(15 := v)\<rparr>"

subsection \<open>Bit-field macros\<close>

text \<open>
  Modelled from the spec: the macros \<^verbatim>\<open>bitfield_get\<close> and \<^verbatim>\<open>bitfield_get_range\<close>
  (\<^verbatim>\<open>hades.h\<close>) are not among the sources. \<^verbatim>\<open>bitfield_get(val, nth)\<close> is bit \<open>nth\<close>
  of \<open>val\<close>; \<^verbatim>\<open>bitfield_get_range(val, start, end)\<close> is the value of the bits of \<open>val\<close>
  from \<open>start\<close> (inclusive) to \<open>end\<close> (exclusive), as its uses show:
  \<^verbatim>\<open>bitfield_get_range(op, 25, 28)\<close> is switched over 0 to 7 and
  \<^verbatim>\<open>bitfield_get_range(op, 4, 28)\<close> is compared with the 24-bit \<^verbatim>\<open>0x12FFF1\<close>. The
  definition is used for ranges with \<open>start < end \<le> 32\<close> only.
\<close>

definition bitfield_get :: "u32 \<Rightarrow> nat \<Rightarrow> u32" where
  "bitfield_get val n = drop_bit n val AND 1"

definition bitfield_get_range :: "u32 \<Rightarrow> nat \<Rightarrow> nat \<Rightarrow> u32" where
  "bitfield_get_range val start stop = take_bit (stop - start) (drop_bit start val)"

subsection \<open>Pipeline reload and reset\<close>

text \<open>
  \<^verbatim>\<open>core_bus_read16\<close> and \<^verbatim>\<open>core_bus_read32\<close> are defined outside the core source; they are
  parameters here, from the core and an address to the value stored in the 32-bit
  latch.
\<close>

type_synonym bus_read = "core \<Rightarrow> u32 \<Rightarrow> u32"

definition core_reload_pipeline :: "bus_read \<Rightarrow> bus_read \<Rightarrow> core \<Rightarrow> core" where
  "core_reload_pipeline core_bus_read16 core_bus_read32 c =
     (if thumb (cpsr c) then
        (let c1 = c\<lparr>prefetch := core_bus_read16 c (r15 c)\<rparr>
         in set_r15 (r15 c1 + 2) c1)
      else
        (let c1 = c\<lparr>prefetch := core_bus_read32 c (r15 c)\<rparr>
         in set_r15 (r15 c1 + 4) c1))"

definition core_reset :: "bus_read \<Rightarrow> bus_read \<Rightarrow> core \<Rightarrow> core" where
  "core_reset core_bus_read16 core_bus_read32 c =
     (let c1 = c\<lparr>registers := fold (\<lambda>i regs. regs(i := 0)) [0..<16] (registers c)\<rparr>;
          c2 = set_r15 0x8000000 c1;
          c3 = c2\<lparr>cpsr := psr_raw_zero\<rparr>;
          c4 = c3\<lparr>cpsr := (cpsr c3)\<lparr>mode := MODE_SYSTEM\<rparr>\<rparr>;
          c5 = c4\<lparr>big_endian := False\<rparr>
      in core_reload_pipeline core_bus_read16 core_bus_read32 c5)"

subsection \<open>The barrel shifter\<close>

text \<open>
  The \<^verbatim>\<open>switch (type)\<close> of \<^verbatim>\<open>core_compute_shift\<close>: from the carry flag of the CPSR,
  the shift type, the amount \<open>bits\<close> and the value, to the shifted value and
  \<^verbatim>\<open>carry_out\<close>. \<open>type\<close> is \<^verbatim>\<open>(encoded_shift >> 1) & 0b11\<close>, hence below 4. The casts
  to \<^verbatim>\<open>int32_t\<close> make \<^verbatim>\<open>>>\<close> an arithmetic shift. A value assigned to the
  \<^verbatim>\<open>bool carry_out\<close> is true when it is not 0.
\<close>

definition shift_switch :: "bool \<Rightarrow> u32 \<Rightarrow> u32 \<Rightarrow> u32 \<Rightarrow> u32 \<times> bool" where
  "shift_switch cpsr_carry type bits v =
     (if type = 0 then
        (if bits = 0 then (v, cpsr_carry)
         else
           (let v1 = push_bit (unat bits - 1) v;
                carry_out = (drop_bit 31 v1 \<noteq> 0)
            in (push_bit 1 v1, carry_out)))
      else if type = 1 then
        (let bits1 = (if bits = 0 then 32 else bits);
             v1 = drop_bit (unat bits1 - 1) v;
             carry_out = (v1 AND 1 \<noteq> 0)
         in (drop_bit 1 v1, carry_out))
      else if type = 2 then
        (let bits1 = (if bits = 0 then 32 else bits);
             v1 = signed_drop_bit (unat bits1 - 1) v;
             carry_out = (v1 AND 1 \<noteq> 0)
         in (signed_drop_bit 1 v1, carry_out))
      else if type = 3 then
        (if bits = 0 then
           (let carry_out = (v AND 1 \<noteq> 0);
                v1 = drop_bit 1 v
            in (v1 OR push_bit 31 (of_bool cpsr_carry), carry_out))
         else
           (let carry_out = (drop_bit (unat bits - 1) v AND 1 \<noteq> 0)
            in (drop_bit (unat bits) v OR push_bit (32 - unat bits) v, carry_out)))
      else (v, False))"

text \<open>
  \<^verbatim>\<open>core_compute_shift(core, encoded_shift, value, update_carry)\<close> returns the shifted
  value and may set the carry flag of the CPSR: the result is the core and the value.
  A register-specified amount of 0 returns \<open>value\<close> at once; one of 32 or more ends
  in \<^verbatim>\<open>unimplemented\<close>.
\<close>

definition core_compute_shift :: "core \<Rightarrow> u32 \<Rightarrow> u32 \<Rightarrow> bool \<Rightarrow> error + core \<times> u32" where
  "core_compute_shift c encoded_shift v update_carry =
     (let finish = (\<lambda>bits.
            (let type = drop_bit 1 encoded_shift AND 0b11;
                 (v', carry_out) = shift_switch (carry (cpsr c)) type bits v;
                 c' = (if update_carry then c\<lparr>cpsr := (cpsr c)\<lparr>carry := carry_out\<rparr>\<rparr> else c)
             in Inr (c', v')))
      in
      if bitfield_get encoded_shift 0 \<noteq> 0 then
        (let rs = drop_bit 4 encoded_shift AND 0xF;
             bits = registers c (unat rs) AND 0xFF
         in if bits = 0 then Inr (c, v)
            else if bits \<ge> 32 then Inl Unimplemented_shift
            else finish bits)
      else finish (drop_bit 3 encoded_shift AND 0x1F))"

subsection \<open>Fetch, decode and execute\<close>

text \<open>
  Modelled from the spec: the enumeration \<^verbatim>\<open>COND_EQ\<close> ... \<^verbatim>\<open>COND_AL\<close> (\<^verbatim>\<open>core.h\<close>) is
  not among the sources. The values are the condition field of the ARM7TDMI data
  sheet, \<open>0b0000\<close> (EQ) to \<open>0b1110\<close> (AL).
\<close>

definition COND_EQ :: u32 where "COND_EQ = 0"
definition COND_NE :: u32 where "COND_NE = 1"
definition COND_CS :: u32 where "COND_CS = 2"
definition COND_CC :: u32 where "COND_CC = 3"
definition COND_MI :: u32 where "COND_MI = 4"
definition COND_PL :: u32 where "COND_PL = 5"
definition COND_VS :: u32 where "COND_VS = 6"
definition COND_VC :: u32 where "COND_VC = 7"
definition COND_HI :: u32 where "COND_HI = 8"
definition COND_LS :: u32 where "COND_LS = 9"
definition COND_GE :: u32 where "COND_GE = 10"
definition COND_LT :: u32 where "COND_LT = 11"
definition COND_GT :: u32 where "COND_GT = 12"
definition COND_LE :: u32 where "COND_LE = 13"
definition COND_AL :: u32 where "COND_AL = 14"

text \<open>
  The first \<^verbatim>\<open>switch (op >> 28)\<close> of \<^verbatim>\<open>core_step_arm\<close>: the value of \<^verbatim>\<open>can_exec\<close>, or
  the panic of the \<^verbatim>\<open>default\<close> branch.
\<close>

definition arm_can_exec :: "psr \<Rightarrow> u32 \<Rightarrow> error + bool" where
  "arm_can_exec p op =
     (let cond = drop_bit 28 op in
      if cond = COND_EQ then Inr (zero p)
      else if cond = COND_NE then Inr (\<not> zero p)
      else if cond = COND_CS then Inr (carry p)
      else if cond = COND_CC then Inr (\<not> carry p)
      else if cond = COND_MI then Inr (negative p)
      else if cond = COND_PL then Inr (\<not> negative p)
      else if cond = COND_VS then Inr (overflow p)
      else if cond = COND_VC then Inr (\<not> overflow p)
      else if cond = COND_HI then Inr (carry p \<and> \<not> zero p)
      else if cond = COND_LS then Inr (\<not> carry p \<or> zero p)
      else if cond = COND_GE then Inr (negative p = overflow p)
      else if cond = COND_LT then Inr (negative p \<noteq> overflow p)
      else if cond = COND_GT then Inr (\<not> zero p \<and> negative p = overflow p)
      else if cond = COND_LE then Inr (zero p \<or> negative p \<noteq> overflow p)
      else if cond = COND_AL then Inr True
      else Inl (Panic_unknown_cond (drop_bit 28 op)))"

text \<open>
  The executors \<^verbatim>\<open>core_arm_branchxchg\<close>, \<^verbatim>\<open>core_arm_mrs\<close>, \<^verbatim>\<open>core_arm_msr\<close>,
  \<^verbatim>\<open>core_arm_msrf\<close>, \<^verbatim>\<open>core_arm_data_processing\<close>, \<^verbatim>\<open>core_arm_mul\<close>, \<^verbatim>\<open>core_arm_sdt\<close>
  and \<^verbatim>\<open>core_arm_branch\<close> are defined outside the core source. The datatype names the one
  that \<^verbatim>\<open>core_step_arm\<close> calls; what each of them does to the core is a parameter of
  the step.
\<close>

datatype executor =
    Core_arm_branchxchg
  | Core_arm_mrs
  | Core_arm_msr
  | Core_arm_msrf
  | Core_arm_data_processing
  | Core_arm_mul
  | Core_arm_sdt
  | Core_arm_branch

type_synonym executors = "executor \<Rightarrow> core \<Rightarrow> u32 \<Rightarrow> error + core"

text \<open>
  Two guards of \<^verbatim>\<open>core_step_arm\<close> read
  \<^verbatim>\<open>bitfield_get_range(op, 23, 25 == 0b10)\<close>: the comparison \<^verbatim>\<open>25 == 0b10\<close> is the third
  argument of the macro, and its value is 0, where the guard of the MRS branch above
  them compares \<^verbatim>\<open>bitfield_get_range(op, 23, 25)\<close> with \<^verbatim>\<open>0b10\<close>. The call asks for
  the bits from 23 up to 0, which is no range of bits. What it yields depends on the
  text of the macro, which is not among the sources: 0 when such a range is taken as
  empty, and \<open>op >> 23\<close> or \<open>op\<close> itself when the shifts of the macro wrap around or
  its arguments are substituted without parentheses. Its value is therefore a
  parameter of the step, a function \<open>msr_guard\<close> of \<open>op\<close>.
\<close>

type_synonym msr_guard = "u32 \<Rightarrow> u32"

text \<open>
  The second \<^verbatim>\<open>switch (bitfield_get_range(op, 25, 28))\<close> of \<^verbatim>\<open>core_step_arm\<close>: the
  executor that is called on \<open>op\<close>, or the panic.
\<close>

definition arm_decode :: "msr_guard \<Rightarrow> u32 \<Rightarrow> error + executor" where
  "arm_decode msr_guard op =
     (let sel = bitfield_get_range op 25 28 in
      if sel = 0 \<or> sel = 1 then
        (if bitfield_get_range op 4 28 = 0x12FFF1 then Inr Core_arm_branchxchg
         else if bitfield_get_range op 23 25 = 0b10 \<and> bitfield_get_range op 16 22 = 0b001111
           then Inr Core_arm_mrs
         else if msr_guard op \<noteq> 0 \<and> bitfield_get_range op 12 22 = 0b1010011111
           then Inr Core_arm_msr
         else if msr_guard op \<noteq> 0 \<and> bitfield_get_range op 12 22 = 0b1010001111
           then Inr Core_arm_msrf
         else if bitfield_get op 4 = 0 \<or> bitfield_get op 7 = 0
           then Inr Core_arm_data_processing
         else if bitfield_get_range op 22 24 = 0 then Inr Core_arm_mul
         else Inl Panic_unknown_instruction)
      else if sel = 2 \<or> sel = 3 then
        (if bitfield_get op 25 \<noteq> 0 \<and> bitfield_get op 4 \<noteq> 0 then Inl Panic_undefined_state
         else Inr Core_arm_sdt)
      else if sel = 5 then Inr Core_arm_branch
      else Inl Panic_unknown_instruction)"

definition core_step_arm ::
    "bus_read \<Rightarrow> msr_guard \<Rightarrow> executors \<Rightarrow> core \<Rightarrow> error + core" where
  "core_step_arm core_bus_read32 msr_guard exec c =
     (let op = prefetch c;
          c1 = c\<lparr>prefetch := core_bus_read32 c (r15 c)\<rparr>;
          c2 = set_r15 (r15 c1 + 4) c1
      in case arm_can_exec (cpsr c2) op of
           Inl e \<Rightarrow> Inl e
         | Inr can_exec \<Rightarrow>
             if \<not> can_exec then Inr c2
             else (case arm_decode msr_guard op of
                     Inl e \<Rightarrow> Inl e
                   | Inr x \<Rightarrow> exec x c2 op))"

definition core_step_thumb :: "core \<Rightarrow> error + core" where
  "core_step_thumb c = Inl Unimplemented_thumb"

definition core_step ::
    "bus_read \<Rightarrow> msr_guard \<Rightarrow> executors \<Rightarrow> core \<Rightarrow> error + core" where
  "core_step core_bus_read32 msr_guard exec c =
     (if thumb (cpsr c) then core_step_thumb c
      else core_step_arm core_bus_read32 msr_guard exec c)"

subsection \<open>Concrete inputs\<close>

text \<open>
  The core after \<^verbatim>\<open>memset(core, 0, sizeof(*core))\<close>, as \<^verbatim>\<open>core_init\<close> leaves it before
  it attaches the memory; a bus on which every read returns the word \<open>w\<close>; and
  executors that leave the core as it is. They are the inputs of the closed
  theorems below.
\<close>

definition core_zeroed :: core where
  "core_zeroed =
     \<lparr>registers = (\<lambda>_. 0), cpsr = psr_raw_zero, prefetch = 0, big_endian = False,
      memory = [], memory_size = 0\<rparr>"

definition bus_const :: "u32 \<Rightarrow> bus_read" where
  "bus_const w c addr = w"

definition exec_none :: executors where
  "exec_none x c op = Inr c"

text \<open>
  Two values of the malformed guard: 0 for every word (the range from 23 to 0 taken
  as empty), and \<open>op >> 23\<close> (the shifts of the macro wrapping around).
\<close>

definition guard_zero :: msr_guard where
  "guard_zero op = 0"


section \<open>Properties\<close>

subsection \<open>Auxiliary facts on words\<close>

lemma drop31_and1: "(drop_bit 31 (v::u32) AND 1 \<noteq> 0) = bit v 31"
  by (simp add: and_one_eq bit_iff_odd_drop_bit mod_2_eq_odd)

lemma drop1_drop31: "drop_bit (Suc 0) (drop_bit 31 (v::u32)) = 0"
  by (simp add: drop_bit_drop_bit)

lemma sdrop31: "signed_drop_bit 31 (v::u32) = (if bit v 31 then - 1 else 0)"
  by (rule bit_word_eqI) (auto simp add: bit_signed_drop_bit_iff not_less_eq_eq)

lemma sdrop32: "signed_drop_bit 32 (v::u32) = (if bit v 31 then - 1 else 0)"
  by (rule bit_word_eqI) (auto simp add: bit_signed_drop_bit_iff not_less_eq_eq)

lemma and1_bit0: "((v::u32) AND 1 \<noteq> 0) = bit v 0"
  by (simp add: and_one_eq bit_0 mod_2_eq_odd)

lemma unat_nibble: "unat (drop_bit 28 (w::u32)) < 16"
proof -
  have "unat w < 2 ^ 32" using unsigned_less [of w] by simp
  then have "unat w div 2 ^ 28 < 16" by simp
  then show ?thesis by (simp add: unat_drop_bit_eq drop_bit_eq_div unat_div)
qed

subsection \<open>Reset\<close>

lemma fold_clear_registers:
  "fold (\<lambda>i regs. regs(i := 0)) [0..<n] (regs :: nat \<Rightarrow> u32) =
     (\<lambda>i. if i < n then 0 else regs i)"
  by (induction n) (auto simp add: fun_eq_iff)

lemma core_reset_eq:
  "core_reset rd16 rd32 c =
     (let c5 = c\<lparr>registers := (\<lambda>i. if i < 16 then 0 else registers c i)(15 := 0x8000000),
                  cpsr := psr_raw_zero\<lparr>mode := MODE_SYSTEM\<rparr>, big_endian := False\<rparr>
      in c5\<lparr>prefetch := rd32 c5 0x8000000, registers := (registers c5)(15 := 0x8000004)\<rparr>)"
  unfolding core_reset_def core_reload_pipeline_def Let_def fold_clear_registers
  by (simp add: set_r15_def r15_def psr_raw_zero_def)

text \<open>
  C5, as the code has it. \<^verbatim>\<open>core_reset\<close> zeroes the sixteen registers, sets r15 to
  the entry point \<open>0x08000000\<close>, clears the CPSR, selects System mode, and then
  reloads the pipeline: the latch receives the word at \<open>0x08000000\<close> and r15 moves one
  ARM instruction further. After the reset r15 is \<open>0x08000004\<close>, the latch holds what
  the bus returns at \<open>0x08000000\<close>, the mode is System, T is clear, and r0 to r14 are
  zero.
\<close>

theorem core_reset_state:
  "r15 (core_reset rd16 rd32 c) = 0x08000004 \<and>
   prefetch (core_reset rd16 rd32 c) =
     rd32 (c\<lparr>registers := (\<lambda>i. if i < 16 then 0 else registers c i)(15 := 0x08000000),
             cpsr := psr_raw_zero\<lparr>mode := MODE_SYSTEM\<rparr>, big_endian := False\<rparr>) 0x08000000 \<and>
   mode (cpsr (core_reset rd16 rd32 c)) = MODE_SYSTEM \<and>
   \<not> thumb (cpsr (core_reset rd16 rd32 c)) \<and>
   (\<forall>i<15. registers (core_reset rd16 rd32 c) i = 0)"
  by (simp add: core_reset_eq Let_def r15_def psr_raw_zero_def)

theorem core_reset_state_witness:
  "(3::nat) < 15 \<and>
   registers (core_reset (bus_const 7) (bus_const 9)
     (core_zeroed\<lparr>registers := (registers core_zeroed)(3 := 42)\<rparr>)) 3 = 0 \<and>
   prefetch (core_reset (bus_const 7) (bus_const 9)
     (core_zeroed\<lparr>registers := (registers core_zeroed)(3 := 42)\<rparr>)) = 9 \<and>
   r15 (core_reset (bus_const 7) (bus_const 9)
     (core_zeroed\<lparr>registers := (registers core_zeroed)(3 := 42)\<rparr>)) = 0x08000004"
  using core_reset_state [of "bus_const 7" "bus_const 9"
      "core_zeroed\<lparr>registers := (registers core_zeroed)(3 := 42)\<rparr>"]
  by (simp add: bus_const_def)

text \<open>
  C5 as stated fails: after \<^verbatim>\<open>core_reset\<close> of the zeroed core, on a bus that reads 0
  everywhere, r15 is not \<open>0x08000000\<close>.
\<close>

theorem core_reset_pc_counterexample:
  "r15 (core_reset (bus_const 0) (bus_const 0) core_zeroed) \<noteq> 0x08000000"
  by (simp add: core_reset_eq Let_def r15_def)

subsection \<open>The barrel shifter\<close>

text \<open>
  C1. An immediate shift amount of 0 (bit 0 of \<open>encoded_shift\<close> clear, bits 3 to 7
  zero), for every value \<open>v\<close> and every core. The carry-out reaches the CPSR when
  \<open>update_carry\<close> is set, and the core is returned as it was otherwise.
  \<^item> LSL #0: the value is unchanged and the carry-out is the C flag of the CPSR.
  \<^item> LSR #0 (LSR #32): the result is 0 and the carry-out is bit 31 of the value.
  \<^item> ASR #0 (ASR #32): the result is all ones or all zeros according to bit 31, and
    the carry-out is bit 31.
  \<^item> ROR #0 (RRX): the result is \<open>(v >> 1) | (C << 31)\<close> and the carry-out is bit 0.
\<close>

theorem core_compute_shift_immediate_zero:
  assumes "bitfield_get encoded_shift 0 = 0"
    and "drop_bit 3 encoded_shift AND 0x1F = 0"
  shows
    "(drop_bit 1 encoded_shift AND 0b11 = 0 \<longrightarrow>
        core_compute_shift c encoded_shift v update_carry =
          Inr (if update_carry then c\<lparr>cpsr := (cpsr c)\<lparr>carry := carry (cpsr c)\<rparr>\<rparr> else c, v)) \<and>
     (drop_bit 1 encoded_shift AND 0b11 = 1 \<longrightarrow>
        core_compute_shift c encoded_shift v update_carry =
          Inr (if update_carry then c\<lparr>cpsr := (cpsr c)\<lparr>carry := bit v 31\<rparr>\<rparr> else c, 0)) \<and>
     (drop_bit 1 encoded_shift AND 0b11 = 2 \<longrightarrow>
        core_compute_shift c encoded_shift v update_carry =
          Inr (if update_carry then c\<lparr>cpsr := (cpsr c)\<lparr>carry := bit v 31\<rparr>\<rparr> else c,
               if bit v 31 then 0xFFFFFFFF else 0)) \<and>
     (drop_bit 1 encoded_shift AND 0b11 = 3 \<longrightarrow>
        core_compute_shift c encoded_shift v update_carry =
          Inr (if update_carry then c\<lparr>cpsr := (cpsr c)\<lparr>carry := bit v 0\<rparr>\<rparr> else c,
               drop_bit 1 v OR push_bit 31 (of_bool (carry (cpsr c)))))"
proof (intro conjI impI)
  assume "drop_bit 1 encoded_shift AND 0b11 = 0"
  with assms show "core_compute_shift c encoded_shift v update_carry =
      Inr (if update_carry then c\<lparr>cpsr := (cpsr c)\<lparr>carry := carry (cpsr c)\<rparr>\<rparr> else c, v)"
    by (simp add: core_compute_shift_def shift_switch_def)
next
  assume "drop_bit 1 encoded_shift AND 0b11 = 1"
  with assms show "core_compute_shift c encoded_shift v update_carry =
      Inr (if update_carry then c\<lparr>cpsr := (cpsr c)\<lparr>carry := bit v 31\<rparr>\<rparr> else c, 0)"
    by (simp add: core_compute_shift_def shift_switch_def drop31_and1 drop1_drop31)
next
  assume "drop_bit 1 encoded_shift AND 0b11 = 2"
  with assms show "core_compute_shift c encoded_shift v update_carry =
      Inr (if update_carry then c\<lparr>cpsr := (cpsr c)\<lparr>carry := bit v 31\<rparr>\<rparr> else c,
           if bit v 31 then 0xFFFFFFFF else 0)"
    by (simp add: core_compute_shift_def shift_switch_def sdrop31 sdrop32 and1_bit0)
next
  assume "drop_bit 1 encoded_shift AND 0b11 = 3"
  with assms show "core_compute_shift c encoded_shift v update_carry =
      Inr (if update_carry then c\<lparr>cpsr := (cpsr c)\<lparr>carry := bit v 0\<rparr>\<rparr> else c,
           drop_bit 1 v OR push_bit 31 (of_bool (carry (cpsr c))))"
    by (simp add: core_compute_shift_def shift_switch_def and1_bit0)
qed

theorem core_compute_shift_immediate_zero_witness:
  "bitfield_get 0 0 = 0 \<and> drop_bit 3 (0::u32) AND 0x1F = 0 \<and> drop_bit 1 (0::u32) AND 0b11 = 0 \<and>
   core_compute_shift (core_zeroed\<lparr>cpsr := psr_raw_zero\<lparr>carry := True\<rparr>\<rparr>) 0 5 True =
     Inr (core_zeroed\<lparr>cpsr := psr_raw_zero\<lparr>carry := True\<rparr>\<rparr>, 5) \<and>
   bitfield_get 2 0 = 0 \<and> drop_bit 3 (2::u32) AND 0x1F = 0 \<and> drop_bit 1 (2::u32) AND 0b11 = 1 \<and>
   core_compute_shift core_zeroed 2 0x80000000 True =
     Inr (core_zeroed\<lparr>cpsr := psr_raw_zero\<lparr>carry := True\<rparr>\<rparr>, 0) \<and>
   bitfield_get 4 0 = 0 \<and> drop_bit 3 (4::u32) AND 0x1F = 0 \<and> drop_bit 1 (4::u32) AND 0b11 = 2 \<and>
   core_compute_shift core_zeroed 4 0x80000000 True =
     Inr (core_zeroed\<lparr>cpsr := psr_raw_zero\<lparr>carry := True\<rparr>\<rparr>, 0xFFFFFFFF) \<and>
   bitfield_get 6 0 = 0 \<and> drop_bit 3 (6::u32) AND 0x1F = 0 \<and> drop_bit 1 (6::u32) AND 0b11 = 3 \<and>
   core_compute_shift (core_zeroed\<lparr>cpsr := psr_raw_zero\<lparr>carry := True\<rparr>\<rparr>) 6 5 True =
     Inr (core_zeroed\<lparr>cpsr := psr_raw_zero\<lparr>carry := True\<rparr>\<rparr>, 0x80000002)"
  using core_compute_shift_immediate_zero
      [of 0 "core_zeroed\<lparr>cpsr := psr_raw_zero\<lparr>carry := True\<rparr>\<rparr>" 5 True]
    core_compute_shift_immediate_zero [of 2 core_zeroed "0x80000000" True]
    core_compute_shift_immediate_zero [of 4 core_zeroed "0x80000000" True]
    core_compute_shift_immediate_zero
      [of 6 "core_zeroed\<lparr>cpsr := psr_raw_zero\<lparr>carry := True\<rparr>\<rparr>" 5 True]
  by (simp add: bitfield_get_def core_zeroed_def psr_raw_zero_def)

text \<open>
  C3, as the code has it. With a register-specified amount (bit 0 of
  \<open>encoded_shift\<close> set) the amount is the low byte of register
  \<open>(encoded_shift >> 4) & 0xF\<close>. An amount of 0 returns the value and leaves the
  core, and with it the carry flag, unchanged for every shift type. An amount of 32
  or more is not shifted: for every shift type the function ends in
  \<^verbatim>\<open>unimplemented\<close>.
\<close>

theorem core_compute_shift_register_amount:
  assumes "bitfield_get encoded_shift 0 \<noteq> 0"
  shows
    "(registers c (unat (drop_bit 4 encoded_shift AND 0xF)) AND 0xFF = 0 \<longrightarrow>
        core_compute_shift c encoded_shift v update_carry = Inr (c, v)) \<and>
     (registers c (unat (drop_bit 4 encoded_shift AND 0xF)) AND 0xFF \<ge> 32 \<longrightarrow>
        core_compute_shift c encoded_shift v update_carry = Inl Unimplemented_shift)"
  using assms by (auto simp add: core_compute_shift_def Let_def)

theorem core_compute_shift_register_amount_witness:
  "bitfield_get 0x11 0 \<noteq> 0 \<and>
   registers core_zeroed (unat (drop_bit 4 (0x11::u32) AND 0xF)) AND 0xFF = 0 \<and>
   core_compute_shift core_zeroed 0x11 0xFF True = Inr (core_zeroed, 0xFF) \<and>
   registers (core_zeroed\<lparr>registers := (registers core_zeroed)(1 := 32)\<rparr>)
     (unat (drop_bit 4 (0x11::u32) AND 0xF)) AND 0xFF \<ge> 32 \<and>
   core_compute_shift (core_zeroed\<lparr>registers := (registers core_zeroed)(1 := 32)\<rparr>)
     0x11 0xFF True = Inl Unimplemented_shift"
  using core_compute_shift_register_amount [of "0x11" core_zeroed "0xFF" True]
    core_compute_shift_register_amount
      [of "0x11" "core_zeroed\<lparr>registers := (registers core_zeroed)(1 := 32)\<rparr>" "0xFF" True]
  by (simp add: bitfield_get_def core_zeroed_def)

text \<open>
  C3 as stated fails: LSL by the amount 33 held in r1 does not yield 0, the shifter
  stops instead.
\<close>

theorem core_compute_shift_register_counterexample:
  "core_compute_shift (core_zeroed\<lparr>registers := (registers core_zeroed)(1 := 33)\<rparr>)
     0x11 0xFF True = Inl Unimplemented_shift"
  by (simp add: core_compute_shift_def bitfield_get_def core_zeroed_def)

subsection \<open>One step of the core\<close>

lemmas COND_defs = COND_EQ_def COND_NE_def COND_CS_def COND_CC_def COND_MI_def COND_PL_def
  COND_VS_def COND_VC_def COND_HI_def COND_LS_def COND_GE_def COND_LT_def COND_GT_def
  COND_LE_def COND_AL_def

lemma arm_can_exec_panic_iff:
  "(\<exists>e. arm_can_exec p w = Inl e) \<longleftrightarrow> drop_bit 28 w = 0xF"
proof
  assume "\<exists>e. arm_can_exec p w = Inl e"
  then have "unat (drop_bit 28 w) \<notin> {0,1,2,3,4,5,6,7,8,9,10,11,12,13,14}"
    by (auto simp add: arm_can_exec_def Let_def COND_defs word_unat_eq_iff split: if_splits)
  with unat_nibble [of w] have "unat (drop_bit 28 w) = 15" by simp arith
  then show "drop_bit 28 w = 0xF" by (simp add: word_unat_eq_iff)
next
  assume "drop_bit 28 w = 0xF"
  then show "\<exists>e. arm_can_exec p w = Inl e"
    by (simp add: arm_can_exec_def Let_def COND_defs)
qed

lemma core_step_arm_eq:
  "core_step_arm rd g exec c =
     (case arm_can_exec (cpsr c) (prefetch c) of
        Inl e \<Rightarrow> Inl e
      | Inr can_exec \<Rightarrow>
          if \<not> can_exec
          then Inr (c\<lparr>prefetch := rd c (r15 c), registers := (registers c)(15 := r15 c + 4)\<rparr>)
          else (case arm_decode g (prefetch c) of
                  Inl e \<Rightarrow> Inl e
                | Inr x \<Rightarrow>
                    exec x (c\<lparr>prefetch := rd c (r15 c),
                              registers := (registers c)(15 := r15 c + 4)\<rparr>) (prefetch c)))"
  by (simp add: core_step_arm_def Let_def set_r15_def r15_def split: sum.splits)

text \<open>
  C4. When the condition of the instruction in the latch evaluates to false, the step
  returns the core with the latch refilled by the word read at r15 and r15 advanced by
  4, and nothing else changed: the result is the same whatever the executors are, none
  of them runs.
\<close>

theorem core_step_arm_skip:
  assumes "arm_can_exec (cpsr c) (prefetch c) = Inr False"
  shows "core_step_arm core_bus_read32 msr_guard exec c =
           Inr (c\<lparr>prefetch := core_bus_read32 c (r15 c),
                  registers := (registers c)(15 := r15 c + 4)\<rparr>)"
  using assms by (simp add: core_step_arm_eq)

theorem core_step_arm_skip_witness:
  "arm_can_exec (cpsr (core_zeroed\<lparr>prefetch := 0x0A000000\<rparr>))
     (prefetch (core_zeroed\<lparr>prefetch := 0x0A000000\<rparr>)) = Inr False \<and>
   core_step_arm (bus_const 5) guard_zero exec_none (core_zeroed\<lparr>prefetch := 0x0A000000\<rparr>) =
     Inr (core_zeroed\<lparr>prefetch := 5, registers := (registers core_zeroed)(15 := 4)\<rparr>)"
  using core_step_arm_skip [of "core_zeroed\<lparr>prefetch := 0x0A000000\<rparr>" "bus_const 5" guard_zero
      exec_none]
  by (simp add: arm_can_exec_def COND_defs core_zeroed_def psr_raw_zero_def bus_const_def r15_def)

text \<open>
  C7. A step in ARM state (T clear): the executed word \<open>op\<close> is the content of the
  latch before the step; the latch is refilled with the word read at the address that
  r15 holds before the step; r15 is advanced by 4; and the condition is tested, and
  the executor chosen and run, on that \<open>op\<close> and on the core so updated.
\<close>

theorem core_step_arm_order:
  assumes "\<not> thumb (cpsr c)"
  shows "core_step core_bus_read32 msr_guard exec c =
     (let op = prefetch c;
          c' = c\<lparr>prefetch := core_bus_read32 c (r15 c),
                 registers := (registers c)(15 := r15 c + 4)\<rparr>
      in case arm_can_exec (cpsr c') op of
           Inl e \<Rightarrow> Inl e
         | Inr can_exec \<Rightarrow>
             if can_exec
             then (case arm_decode msr_guard op of Inl e \<Rightarrow> Inl e | Inr x \<Rightarrow> exec x c' op)
             else Inr c')"
  using assms by (simp add: core_step_def core_step_arm_eq Let_def split: sum.splits)

theorem core_step_arm_order_witness:
  "\<not> thumb (cpsr (core_zeroed\<lparr>prefetch := 0xEA000000\<rparr>)) \<and>
   core_step (bus_const 5) guard_zero exec_none (core_zeroed\<lparr>prefetch := 0xEA000000\<rparr>) =
     Inr (core_zeroed\<lparr>prefetch := 5, registers := (registers core_zeroed)(15 := 4)\<rparr>)"
  using core_step_arm_order [of "core_zeroed\<lparr>prefetch := 0xEA000000\<rparr>" "bus_const 5" guard_zero
      exec_none]
  by (simp add: arm_can_exec_def arm_decode_def bitfield_get_range_def COND_defs core_zeroed_def
      psr_raw_zero_def bus_const_def exec_none_def r15_def)

text \<open>
  C8, as the code has it. When T is set the step decodes nothing: \<^verbatim>\<open>core_step\<close> calls
  \<^verbatim>\<open>core_step_thumb\<close>, whose body is the call of \<^verbatim>\<open>unimplemented\<close>; no instruction is
  executed and no core is returned.
\<close>

theorem core_step_thumb_unimplemented:
  assumes "thumb (cpsr c)"
  shows "core_step core_bus_read32 msr_guard exec c = Inl Unimplemented_thumb"
  using assms by (simp add: core_step_def core_step_thumb_def)

theorem core_step_thumb_unimplemented_witness:
  "thumb (cpsr (core_zeroed\<lparr>cpsr := psr_raw_zero\<lparr>thumb := True\<rparr>, prefetch := 0x2001\<rparr>)) \<and>
   core_step (bus_const 5) guard_zero exec_none
     (core_zeroed\<lparr>cpsr := psr_raw_zero\<lparr>thumb := True\<rparr>, prefetch := 0x2001\<rparr>) =
     Inl Unimplemented_thumb"
  using core_step_thumb_unimplemented
      [of "core_zeroed\<lparr>cpsr := psr_raw_zero\<lparr>thumb := True\<rparr>, prefetch := 0x2001\<rparr>"
          "bus_const 5" guard_zero exec_none]
  by (simp add: core_zeroed_def psr_raw_zero_def)

text \<open>
  C8 as stated fails: with T set and the Thumb instruction \<open>0x2001\<close> (MOV r0, #1) in
  the latch, the step executes nothing and ends in \<^verbatim>\<open>unimplemented\<close>.
\<close>

theorem core_step_thumb_counterexample:
  "core_step (bus_const 0) guard_zero exec_none
     (core_zeroed\<lparr>cpsr := (cpsr core_zeroed)\<lparr>thumb := True\<rparr>, prefetch := 0x2001\<rparr>) =
     Inl Unimplemented_thumb"
  by (simp add: core_step_def core_step_thumb_def)

text \<open>
  C10. The condition is evaluated for the fifteen values \<open>0b0000\<close> to \<open>0b1110\<close> of
  the top four bits and for no other: the evaluation ends in the panic exactly when
  the top four bits are \<open>0b1111\<close>, and a step whose latch holds such a word ends in
  \<^verbatim>\<open>panic(CORE, "Unknown cond %u\n", op >> 28)\<close>, neither skipping nor executing it.
\<close>

theorem core_step_arm_unknown_cond:
  "((\<exists>e. arm_can_exec p w = Inl e) \<longleftrightarrow> drop_bit 28 w = 0xF) \<and>
   (drop_bit 28 (prefetch c) = 0xF \<longrightarrow>
      core_step_arm core_bus_read32 msr_guard exec c = Inl (Panic_unknown_cond 0xF))"
proof (intro conjI impI)
  show "(\<exists>e. arm_can_exec p w = Inl e) \<longleftrightarrow> drop_bit 28 w = 0xF"
    by (rule arm_can_exec_panic_iff)
next
  assume "drop_bit 28 (prefetch c) = 0xF"
  then have "arm_can_exec (cpsr c) (prefetch c) = Inl (Panic_unknown_cond 0xF)"
    by (simp add: arm_can_exec_def Let_def COND_defs)
  then show "core_step_arm core_bus_read32 msr_guard exec c = Inl (Panic_unknown_cond 0xF)"
    by (simp add: core_step_arm_eq)
qed

theorem core_step_arm_unknown_cond_witness:
  "drop_bit 28 (prefetch (core_zeroed\<lparr>prefetch := 0xF0000000\<rparr>)) = 0xF \<and>
   core_step_arm (bus_const 5) guard_zero exec_none (core_zeroed\<lparr>prefetch := 0xF0000000\<rparr>) =
     Inl (Panic_unknown_cond 0xF) \<and>
   drop_bit 28 (0xE0000000 :: u32) \<noteq> 0xF \<and>
   \<not> (\<exists>e. arm_can_exec psr_raw_zero 0xE0000000 = Inl e)"
  using core_step_arm_unknown_cond
      [of psr_raw_zero "0xE0000000" "core_zeroed\<lparr>prefetch := 0xF0000000\<rparr>" "bus_const 5"
          guard_zero exec_none]
  by simp




end
